theory Spec2Isabelle
  imports Complex_Main "HOL-Library.Sublist"
begin

section \<open>Python values used by analysis.py\<close>

text \<open>
  A Python float is an IEEE 754 binary64 value: a finite number, an infinity or NaN.
  A finite value is carried as the real number it denotes; every operation rounds its
  exact result to the nearest binary64 value (ties to the even significand) and
  overflows to an infinity.  Comparisons with NaN are false and arithmetic on NaN gives
  NaN.  The sign of zero is not modelled: a zero mean or median is printed as
  \<open>0.00\<close>, where the script prints \<open>-0.00\<close> if the library returns a negative
  zero.
\<close>

datatype pyfloat = Num real | PInf | NInf | NaN

fun is_finite :: "pyfloat \<Rightarrow> bool" where
  "is_finite (Num a) = True"
| "is_finite _ = False"

definition round_half_even :: "real \<Rightarrow> int" where
  "round_half_even x =
     (let f = \<lfloor>x\<rfloor>; d = x - of_int f in
      if d < 1 / 2 then f else if 1 / 2 < d then f + 1 else if even f then f else f + 1)"

text \<open>
  Rounding a real number to binary64.  The significand has 53 bits, so a number in the
  binade \<open>[2^k, 2^(k+1))\<close> is rounded to a multiple of \<open>2^(k-52)\<close>, and a number
  below the normal range to a multiple of \<open>2^-1074\<close>; a result of \<open>2^1024\<close> or more
  is an overflow.
\<close>

definition round64 :: "real \<Rightarrow> pyfloat" where
  "round64 x =
     (if x = 0 then Num 0
      else
        let e = max (\<lfloor>log 2 \<bar>x\<bar>\<rfloor> - 52) (- 1074);
            m = round_half_even (\<bar>x\<bar> / 2 powi e);
            v = of_int m * 2 powi e
        in if 2 ^ 1024 \<le> v then (if 0 < x then PInf else NInf)
           else Num (if 0 < x then v else - v))"

fun fadd :: "pyfloat \<Rightarrow> pyfloat \<Rightarrow> pyfloat" where
  "fadd NaN _ = NaN"
| "fadd _ NaN = NaN"
| "fadd PInf NInf = NaN"
| "fadd NInf PInf = NaN"
| "fadd PInf _ = PInf"
| "fadd _ PInf = PInf"
| "fadd NInf _ = NInf"
| "fadd _ NInf = NInf"
| "fadd (Num a) (Num b) = round64 (a + b)"

fun fneg :: "pyfloat \<Rightarrow> pyfloat" where
  "fneg (Num a) = Num (- a)"
| "fneg PInf = NInf"
| "fneg NInf = PInf"
| "fneg NaN = NaN"

definition fsub :: "pyfloat \<Rightarrow> pyfloat \<Rightarrow> pyfloat" where
  "fsub a b = fadd a (fneg b)"

fun fabs :: "pyfloat \<Rightarrow> pyfloat" where
  "fabs (Num a) = Num \<bar>a\<bar>"
| "fabs PInf = PInf"
| "fabs NInf = PInf"
| "fabs NaN = NaN"

fun fgt :: "pyfloat \<Rightarrow> pyfloat \<Rightarrow> bool" where
  "fgt NaN _ = False"
| "fgt _ NaN = False"
| "fgt (Num a) (Num b) = (b < a)"
| "fgt PInf PInf = False"
| "fgt PInf _ = True"
| "fgt _ PInf = False"
| "fgt NInf _ = False"
| "fgt _ NInf = True"

fun fle :: "pyfloat \<Rightarrow> pyfloat \<Rightarrow> bool" where
  "fle NaN _ = False"
| "fle _ NaN = False"
| "fle (Num a) (Num b) = (a \<le> b)"
| "fle NInf _ = True"
| "fle _ PInf = True"
| "fle _ _ = False"

text \<open>
  Division of a float by a count \<open>n \<ge> 1\<close> (a length, which is a float exactly).
\<close>

fun fdiv_count :: "pyfloat \<Rightarrow> nat \<Rightarrow> pyfloat" where
  "fdiv_count (Num a) n = round64 (a / real n)"
| "fdiv_count x n = x"

datatype error = FileNotFoundError | EmptyDataError | ParserError | ValueError string

text \<open>
  Two functions of the Python runtime are parameters of the model: \<open>float(s)\<close> on a
  string (\<open>None\<close> when it raises ValueError) and \<open>str(x)\<close> on a float.
\<close>

record pylib =
  float_of_str :: "string \<Rightarrow> pyfloat option"
  str_of_float :: "pyfloat \<Rightarrow> string"

subsection \<open>Decimal formatting\<close>

definition digit_char :: "nat \<Rightarrow> char" where
  "digit_char d = ''0123456789'' ! d"

fun str_nat :: "nat \<Rightarrow> string" where
  "str_nat n = (if n < 10 then [digit_char n] else str_nat (n div 10) @ [digit_char (n mod 10)])"

declare str_nat.simps [simp del]

definition str_int :: "int \<Rightarrow> string" where
  "str_int i = (if i < 0 then ''-'' @ str_nat (nat (- i)) else str_nat (nat i))"

definition zfill :: "nat \<Rightarrow> string \<Rightarrow> string" where
  "zfill w s = replicate (w - length s) (CHR ''0'') @ s"

text \<open>
  The format specification \<open>{x:.pf}\<close>: fixed point with \<open>p\<close> decimals, the exact value
  of the float rounded half to even; \<open>nan\<close>, \<open>inf\<close> and \<open>-inf\<close> for the others.
\<close>

fun format_f :: "nat \<Rightarrow> pyfloat \<Rightarrow> string" where
  "format_f p NaN = ''nan''"
| "format_f p PInf = ''inf''"
| "format_f p NInf = ''-inf''"
| "format_f p (Num r) =
     (let n = nat (round_half_even (\<bar>r\<bar> * 10 ^ p)) in
      (if r < 0 then ''-'' else '''') @ str_nat (n div 10 ^ p) @
      (if p = 0 then '''' else ''.'' @ zfill p (str_nat (n mod 10 ^ p))))"

section \<open>pandas: the table and the two reductions\<close>

text \<open>
  \<open>pd.read_csv\<close> is library code; its outcome (an error, or the table it parsed) is the
  input of the model.  A cell is missing (NaN), a whole number, a float or text.  A
  finite float cell holds the number as the file writes it, and becomes the nearest
  binary64 value when it is used.  A row shorter than the header is padded with
  missing cells, as the parser does.
\<close>

datatype cell = Missing | IntNum int | FloatNum pyfloat | Text string

record dataframe =
  columns :: "string list"
  rows :: "cell list list"

fun index_of :: "string \<Rightarrow> string list \<Rightarrow> nat" where
  "index_of a [] = 0"
| "index_of a (x # xs) = (if x = a then 0 else Suc (index_of a xs))"

definition getitem :: "dataframe \<Rightarrow> string \<Rightarrow> cell list" where
  "getitem df name =
     (let i = index_of name (columns df)
      in map (\<lambda>r. if i < length r then r ! i else Missing) (rows df))"

definition len_df :: "dataframe \<Rightarrow> nat" where
  "len_df df = length (rows df)"

text \<open>\<open>repr\<close> of a string that holds no quote and nothing to escape.\<close>

definition py_repr :: "string \<Rightarrow> string" where
  "py_repr s = [CHR 0x27] @ s @ [CHR 0x27]"

fun cell_float :: "pylib \<Rightarrow> cell \<Rightarrow> error + pyfloat" where
  "cell_float L Missing = Inr NaN"
| "cell_float L (IntNum i) = Inr (round64 (of_int i))"
| "cell_float L (FloatNum (Num r)) = Inr (round64 r)"
| "cell_float L (FloatNum v) = Inr v"
| "cell_float L (Text s) =
     (case float_of_str L s of
        None \<Rightarrow> Inl (ValueError (''could not convert string to float: '' @ py_repr s))
      | Some v \<Rightarrow> Inr v)"

fun astype_float :: "pylib \<Rightarrow> cell list \<Rightarrow> error + pyfloat list" where
  "astype_float L [] = Inr []"
| "astype_float L (c # cs) =
     (case cell_float L c of
        Inl e \<Rightarrow> Inl e
      | Inr v \<Rightarrow> (case astype_float L cs of Inl e \<Rightarrow> Inl e | Inr vs \<Rightarrow> Inr (v # vs)))"

fun cell_str :: "pylib \<Rightarrow> cell \<Rightarrow> string" where
  "cell_str L Missing = ''nan''"
| "cell_str L (IntNum i) = str_int i"
| "cell_str L (FloatNum v) = str_of_float L v"
| "cell_str L (Text s) = s"

definition astype_str :: "pylib \<Rightarrow> cell list \<Rightarrow> string list" where
  "astype_str L cs = map (cell_str L) cs"

subsection \<open>Summation\<close>

text \<open>
  numpy adds the elements of a float array in a fixed order (\<open>pairwise_sum\<close> in its
  \<open>add\<close> loop): fewer than eight elements from left to right; up to 128 elements in
  eight interleaved lanes that are added as a balanced tree at the end, the leftover
  elements after that; a longer array split in two.  Every addition rounds.
\<close>

function lanes :: "pyfloat list \<Rightarrow> pyfloat list \<Rightarrow> pyfloat list" where
  "lanes r xs =
     (if length xs < 8 then r else lanes (map2 fadd r (take 8 xs)) (drop 8 xs))"
  by pat_completeness auto
termination
  by (relation "measure (\<lambda>(r, xs). length xs)") auto

declare lanes.simps [simp del]

definition tree8 :: "pyfloat list \<Rightarrow> pyfloat" where
  "tree8 r =
     fadd (fadd (fadd (r ! 0) (r ! 1)) (fadd (r ! 2) (r ! 3)))
          (fadd (fadd (r ! 4) (r ! 5)) (fadd (r ! 6) (r ! 7)))"

function pairwise_sum :: "pyfloat list \<Rightarrow> pyfloat" where
  "pairwise_sum xs =
     (let n = length xs in
      if n < 8 then foldl fadd (Num 0) xs
      else if n \<le> 128 then
        let full = n - n mod 8;
            r = lanes (take 8 xs) (take (full - 8) (drop 8 xs))
        in foldl fadd (tree8 r) (drop full xs)
      else
        let n2 = n div 2 - (n div 2) mod 8
        in fadd (pairwise_sum (take n2 xs)) (pairwise_sum (drop n2 xs)))"
  by pat_completeness auto
termination
  by (relation "measure length") (auto simp: Let_def)

declare pairwise_sum.simps [simp del]

text \<open>\<open>numpy.mean\<close> of a non-empty array: the sum divided by the count.\<close>

definition np_mean :: "pyfloat list \<Rightarrow> pyfloat" where
  "np_mean xs = fdiv_count (pairwise_sum xs) (length xs)"

fun insort_f :: "pyfloat \<Rightarrow> pyfloat list \<Rightarrow> pyfloat list" where
  "insort_f x [] = [x]"
| "insort_f x (y # ys) = (if fle x y then x # y # ys else y # insort_f x ys)"

fun sort_f :: "pyfloat list \<Rightarrow> pyfloat list" where
  "sort_f [] = []"
| "sort_f (x # xs) = insort_f x (sort_f xs)"

subsection \<open>Mean and median of a Series\<close>

text \<open>
  \<open>Series.mean()\<close> and \<open>Series.median()\<close> skip missing values (\<open>skipna=True\<close> is
  the default) and give NaN when nothing is left.  The mean puts 0 in the place of
  every missing value, sums the array and divides by the count of the values that are
  not missing.  The median drops the missing values, puts the others in order and takes
  \<open>numpy.mean\<close> of the slice of one (odd count) or two (even count) central values,
  as \<open>numpy.median\<close> does.
\<close>

fun notna :: "pyfloat list \<Rightarrow> pyfloat list" where
  "notna [] = []"
| "notna (NaN # xs) = notna xs"
| "notna (x # xs) = x # notna xs"

fun fillna0 :: "pyfloat list \<Rightarrow> pyfloat list" where
  "fillna0 [] = []"
| "fillna0 (NaN # xs) = Num 0 # fillna0 xs"
| "fillna0 (x # xs) = x # fillna0 xs"

definition series_mean :: "pyfloat list \<Rightarrow> pyfloat" where
  "series_mean xs =
     (let vals = fillna0 xs; count = length (notna xs); the_sum = pairwise_sum vals
      in if 0 < count then fdiv_count the_sum count else NaN)"

definition series_median :: "pyfloat list \<Rightarrow> pyfloat" where
  "series_median xs =
     (let vals = notna xs; n = length vals in
      if n = 0 then NaN
      else
        let part = sort_f vals; index = n div 2;
            mid = (if n mod 2 = 1 then take 1 (drop index part)
                   else take 2 (drop (index - 1) part))
        in np_mean mid)"

section \<open>matplotlib and the file system\<close>

text \<open>
  A figure is its size and the pyplot calls made on it, in order.  Rendering is not
  modelled: a saved image is the figure and the resolution it was saved at.
\<close>

datatype plt_call =
    Plot "string list" "pyfloat list" string real string
  | Axhline pyfloat string string real string
  | Bar "string list" "pyfloat list"
  | TextAt real pyfloat string string string
  | Title string
  | Xlabel string
  | Ylabel string
  | XticksRotation nat
  | Grid real
  | Legend
  | TightLayout

record figure =
  figsize :: "nat \<times> nat"
  calls :: "plt_call list"

text \<open>The rectangles \<open>plt.bar\<close> returns: categorical bars are centred on 0, 1, ... with width 0.8.\<close>

record rectangle =
  get_x :: real
  get_width :: real
  get_height :: pyfloat

definition bar_container :: "pyfloat list \<Rightarrow> rectangle list" where
  "bar_container vs =
     map (\<lambda>(i, v). \<lparr>get_x = real i - 0.4, get_width = 0.8, get_height = v\<rparr>)
       (zip [0..<length vs] vs)"

datatype artifact = Png nat figure | TextFile string

text \<open>
  The world the script acts on: the directories and files of the working directory and
  the console.  The working directory is taken to be writable; \<open>open(path, "w")\<close> and
  \<open>savefig\<close> replace whatever the path held.
\<close>

record world =
  dirs :: "string set"
  files :: "string \<Rightarrow> artifact option"
  stdout :: "string list"

definition makedirs :: "string \<Rightarrow> world \<Rightarrow> world" where
  "makedirs p w = w\<lparr>dirs := insert p (dirs w)\<rparr>"

definition py_print :: "string \<Rightarrow> world \<Rightarrow> world" where
  "py_print s w = w\<lparr>stdout := stdout w @ [s]\<rparr>"

definition savefig :: "string \<Rightarrow> nat \<Rightarrow> figure \<Rightarrow> world \<Rightarrow> world" where
  "savefig p dpi fig w = w\<lparr>files := (files w)(p \<mapsto> Png dpi fig)\<rparr>"

definition write_file :: "string \<Rightarrow> string \<Rightarrow> world \<Rightarrow> world" where
  "write_file p s w = w\<lparr>files := (files w)(p \<mapsto> TextFile s)\<rparr>"

definition path_join :: "string \<Rightarrow> string \<Rightarrow> string" where
  "path_join d f = d @ ''/'' @ f"

definition unlines :: "string list \<Rightarrow> string" where
  "unlines ls = concat (map (\<lambda>l. l @ [CHR 0x0A]) ls)"

section \<open>analysis.py\<close>

subsection \<open>Config\<close>

definition DATA_PATH :: string where "DATA_PATH = ''quarterly_cac.csv''"
definition FIG_DIR :: string where "FIG_DIR = ''figures''"
definition BENCHMARK :: pyfloat where "BENCHMARK = Num 150"
definition REQUIRED_MEAN :: pyfloat where "REQUIRED_MEAN = round64 229.56"
definition EMAIL :: string where "EMAIL = ''23f3001359@ds.study.iitm.ac.in''"

subsection \<open>Compute metrics\<close>

definition mean_cac :: "pyfloat list \<Rightarrow> pyfloat" where
  "mean_cac cacs = series_mean cacs"

definition median_cac :: "pyfloat list \<Rightarrow> pyfloat" where
  "median_cac cacs = series_median cacs"

definition verification_line :: "pyfloat \<Rightarrow> string" where
  "verification_line m =
     (if fgt (fabs (fsub m REQUIRED_MEAN)) (round64 (1 / 1000000))
      then ''WARNING: computed mean does not equal REQUIRED_MEAN (229.56).''
      else ''Verified: computed mean equals required README value 229.56'')"

definition print_metrics :: "dataframe \<Rightarrow> pyfloat list \<Rightarrow> world \<Rightarrow> world" where
  "print_metrics df cacs w =
     (let w = py_print (''Read '' @ str_nat (len_df df) @ '' rows from '' @ DATA_PATH) w;
          w = py_print (''Average CAC: '' @ format_f 2 (mean_cac cacs)) w;
          w = py_print (''Median CAC: '' @ format_f 2 (median_cac cacs)) w;
          w = py_print (''For verification: '' @ EMAIL) w
      in py_print (verification_line (mean_cac cacs)) w)"

subsection \<open>Plot 1: CAC trend with benchmark line\<close>

definition trend_title :: string where
  "trend_title = ''Quarterly Customer Acquisition Cost (CAC) '' @
     [CHR 0xC3, CHR 0xA2, CHR 0xE2, CHR 0x82, CHR 0xAC, CHR 0xE2, CHR 0x80, CHR 0x9D] @
     '' Trend vs. Benchmark''"

definition trend_figure :: "string list \<Rightarrow> pyfloat list \<Rightarrow> figure" where
  "trend_figure quarters cacs =
     \<lparr>figsize = (10, 5),
      calls =
        [Plot quarters cacs ''o'' 2 ''Company CAC'',
         Axhline BENCHMARK ''red'' ''--'' 1.5
           (''Industry Benchmark ('' @ format_f 0 BENCHMARK @ '')''),
         Title trend_title,
         Xlabel ''Quarter'',
         Ylabel ''CAC (USD)'',
         XticksRotation 45,
         Grid 0.25,
         Legend,
         TightLayout]\<rparr>"

definition trend_path :: string where
  "trend_path = path_join FIG_DIR ''cac_trend.png''"

definition plot_trend :: "string list \<Rightarrow> pyfloat list \<Rightarrow> world \<Rightarrow> world" where
  "plot_trend quarters cacs w =
     (let w = savefig trend_path 150 (trend_figure quarters cacs) w
      in py_print (''Saved CAC trend figure to: '' @ trend_path) w)"

subsection \<open>Plot 2: bar comparing average to benchmark\<close>

definition annotate :: "rectangle \<Rightarrow> plt_call" where
  "annotate bar =
     (let y = get_height bar
      in TextAt (get_x bar + get_width bar / 2) (fadd y (Num 3)) (format_f 2 y)
           ''center'' ''bottom'')"

definition comparison_figure :: "pyfloat list \<Rightarrow> figure" where
  "comparison_figure cacs =
     (let labels = [''Company Avg CAC'', ''Industry Benchmark''];
          vals = [mean_cac cacs, BENCHMARK];
          bars = bar_container vals
      in \<lparr>figsize = (6, 4),
          calls =
            [Bar labels vals,
             Title ''Company Average CAC vs Industry Benchmark'',
             Ylabel ''CAC (USD)''] @
            map annotate bars @
            [TightLayout]\<rparr>)"

definition cmp_path :: string where
  "cmp_path = path_join FIG_DIR ''cac_benchmark_comparison.png''"

definition plot_comparison :: "pyfloat list \<Rightarrow> world \<Rightarrow> world" where
  "plot_comparison cacs w =
     (let w = savefig cmp_path 150 (comparison_figure cacs) w
      in py_print (''Saved benchmark comparison figure to: '' @ cmp_path) w)"

subsection \<open>Summary file\<close>

definition summary_lines :: "dataframe \<Rightarrow> pyfloat list \<Rightarrow> string list" where
  "summary_lines df cacs =
     [''CAC Analysis Summary'',
      ''--------------------'',
      ''Rows analyzed: '' @ str_nat (len_df df),
      ''Average CAC: '' @ format_f 2 (mean_cac cacs),
      ''Median CAC: '' @ format_f 2 (median_cac cacs),
      ''Industry benchmark: '' @ format_f 2 BENCHMARK,
      '''',
      ''Key insight:'',
      ''- Current average CAC ('' @ format_f 2 (mean_cac cacs) @
        '') is higher than the industry benchmark ('' @ format_f 2 BENCHMARK @ '').'',
      ''- Recommended solution: optimize digital marketing channels (reallocate spend to organic/referral, improve conversion funnel, A/B test landing pages, etc).'',
      '''',
      ''Contact for verification: '' @ EMAIL]"

definition summary_text :: "dataframe \<Rightarrow> pyfloat list \<Rightarrow> string" where
  "summary_text df cacs = unlines (summary_lines df cacs)"

definition summary_path :: string where
  "summary_path = ''analysis_summary.txt''"

definition write_summary :: "dataframe \<Rightarrow> pyfloat list \<Rightarrow> world \<Rightarrow> world" where
  "write_summary df cacs w =
     (let w = write_file summary_path (summary_text df cacs) w
      in py_print ''Wrote analysis_summary.txt'' w)"

subsection \<open>Read data\<close>

text \<open>
  \<open>csv\<close> is the outcome of \<open>pd.read_csv(DATA_PATH)\<close>.  The column check raises
  ValueError; so does \<open>astype(float)\<close> on text that is not a number.
\<close>

definition read_data ::
  "pylib \<Rightarrow> error + dataframe \<Rightarrow> error + dataframe \<times> string list \<times> pyfloat list" where
  "read_data L csv =
     (case csv of
        Inl e \<Rightarrow> Inl e
      | Inr df \<Rightarrow>
          if ''quarter'' \<notin> set (columns df) \<or> ''cac'' \<notin> set (columns df)
          then Inl (ValueError ''CSV must contain 'quarter' and 'cac' columns'')
          else
            let quarters = astype_str L (getitem df ''quarter'') in
            (case astype_float L (getitem df ''cac'') of
               Inl e \<Rightarrow> Inl e
             | Inr cacs \<Rightarrow> Inr (df, quarters, cacs)))"

subsection \<open>The script, top to bottom\<close>

definition report :: "dataframe \<Rightarrow> string list \<Rightarrow> pyfloat list \<Rightarrow> world \<Rightarrow> world" where
  "report df quarters cacs w =
     (let w = print_metrics df cacs w;
          w = plot_trend quarters cacs w;
          w = plot_comparison cacs w;
          w = write_summary df cacs w
      in py_print ''Analysis complete.'' w)"

text \<open>
  The run returns the exception that ended it (\<open>None\<close> when it ran to the end) and the
  world it left behind.  The output directory is made first, before the data is read.
\<close>

definition main :: "pylib \<Rightarrow> error + dataframe \<Rightarrow> world \<Rightarrow> error option \<times> world" where
  "main L csv w0 =
     (let w1 = makedirs FIG_DIR w0 in
      case read_data L csv of
        Inl e \<Rightarrow> (Some e, w1)
      | Inr (df, quarters, cacs) \<Rightarrow> (None, report df quarters cacs w1))"

section \<open>What the specification says, and how outputs are read\<close>

text \<open>
  The median in the specification's words: the middle value of the sorted sequence for
  an odd count, the average of the two central values for an even count.
\<close>

definition spec_median :: "real list \<Rightarrow> real" where
  "spec_median vs =
     (let s = sort vs; n = length vs in
      if odd n then s ! (n div 2) else (s ! (n div 2 - 1) + s ! (n div 2)) / 2)"

text \<open>
  The tolerance check in the specification's words: the mean is a number within
  \<open>1e-6\<close> of 229.56.  NaN and the infinities are within tolerance of nothing.
\<close>

definition within_tolerance :: "pyfloat \<Rightarrow> bool" where
  "within_tolerance m = (case m of Num r \<Rightarrow> \<bar>r - 229.56\<bar> \<le> 1 / 1000000 | _ \<Rightarrow> False)"

text \<open>
  A value formatted to exactly two decimal places: an optional sign, at least one digit,
  a point, two digits.
\<close>

definition is_digit :: "char \<Rightarrow> bool" where
  "is_digit c = (c \<in> set ''0123456789'')"

definition two_decimals :: "string \<Rightarrow> bool" where
  "two_decimals s =
     (let t = (case s of [] \<Rightarrow> s | c # r \<Rightarrow> if c = CHR ''-'' then r else s) in
      case rev t of
        b # a # dot # ip \<Rightarrow>
          dot = CHR ''.'' \<and> is_digit a \<and> is_digit b \<and> ip \<noteq> [] \<and> list_all is_digit ip
      | _ \<Rightarrow> False)"

text \<open>The bars of a figure, left to right: each label with its value.\<close>

definition bars_of :: "figure \<Rightarrow> (string \<times> pyfloat) list" where
  "bars_of fig =
     concat (map (\<lambda>c. case c of Bar ls vs \<Rightarrow> zip ls vs | _ \<Rightarrow> []) (calls fig))"

subsection \<open>Example inputs\<close>

text \<open>The table of the specification's example: four quarters, costs 100, 150, 200, 250.\<close>

definition spec_example :: dataframe where
  "spec_example =
     \<lparr>columns = [''quarter'', ''cac''],
      rows = [[Text ''Q1'', IntNum 100], [Text ''Q2'', IntNum 150],
              [Text ''Q3'', IntNum 200], [Text ''Q4'', IntNum 250]]\<rparr>"

text \<open>A file that holds the header line \<open>quarter,cac\<close> and no data row.\<close>

definition header_only :: dataframe where
  "header_only = \<lparr>columns = [''quarter'', ''cac''], rows = []\<rparr>"

text \<open>A file whose cost column has another name.\<close>

definition no_cac_column :: dataframe where
  "no_cac_column = \<lparr>columns = [''quarter'', ''cost''], rows = [[Text ''Q1'', IntNum 100]]\<rparr>"

text \<open>One quarter with a cost of 100, below the benchmark.\<close>

definition low_cost :: dataframe where
  "low_cost = \<lparr>columns = [''quarter'', ''cac''], rows = [[Text ''Q1'', IntNum 100]]\<rparr>"

text \<open>An empty working directory and a silent console.\<close>

definition fresh_world :: world where
  "fresh_world = \<lparr>dirs = {}, files = (\<lambda>p. None), stdout = []\<rparr>"

text \<open>
  A stand-in for the two runtime functions.  The examples have text labels and whole or
  blank costs, so neither function is called on them.
\<close>

definition plain_lib :: pylib where
  "plain_lib = \<lparr>float_of_str = (\<lambda>s. None), str_of_float = (\<lambda>r. ''0.0'')\<rparr>"

text \<open>One quarter whose cost cell is blank.\<close>

definition blank_cost :: dataframe where
  "blank_cost = \<lparr>columns = [''quarter'', ''cac''], rows = [[Text ''Q1'', Missing]]\<rparr>"

text \<open>Two quarters, both cost cells blank.\<close>

definition two_blank_costs :: dataframe where
  "two_blank_costs =
     \<lparr>columns = [''quarter'', ''cac''],
      rows = [[Text ''Q1'', Missing], [Text ''Q2'', Missing]]\<rparr>"

text \<open>One quarter whose cost cell reads \<open>inf\<close>.\<close>

definition inf_cost :: dataframe where
  "inf_cost = \<lparr>columns = [''quarter'', ''cac''], rows = [[Text ''Q1'', FloatNum PInf]]\<rparr>"

section \<open>Lemmas about the model\<close>

subsection \<open>Rounding to binary64\<close>

text \<open>
  A number \<open>i * 2^z\<close> with \<open>|i| < 2^53\<close> and \<open>z \<ge> -1074\<close> below \<open>2^1024\<close> is a
  binary64 value, and rounding leaves it as it is; a number of magnitude \<open>2^1024\<close> or
  more overflows.
\<close>

lemma round_half_even_of_int: "round_half_even (of_int j) = j"
  by (simp add: round_half_even_def)

lemma round_half_even_ge: "of_int n \<le> x \<Longrightarrow> n \<le> round_half_even x"
proof -
  assume "of_int n \<le> x"
  then have "n \<le> \<lfloor>x\<rfloor>" by (simp add: le_floor_iff)
  then show ?thesis by (simp add: round_half_even_def Let_def)
qed

lemma powi2_less_D: "(2::real) powi m < 2 powi n \<Longrightarrow> m < n"
proof (rule ccontr)
  assume h: "(2::real) powi m < 2 powi n" and "\<not> m < n"
  then have "(2::real) powi n \<le> 2 powi m" by (simp add: power_int_increasing)
  then show False using h by simp
qed

lemma floor_log2_bounds:
  assumes "0 < a"
  shows "2 powi \<lfloor>log 2 a\<rfloor> \<le> a" "a < 2 powi (\<lfloor>log 2 a\<rfloor> + 1)"
proof -
  have p: "(2::real) powr real_of_int n = 2 powi n" for n
    by (simp add: powr_real_of_int')
  have "2 powr real_of_int \<lfloor>log 2 a\<rfloor> \<le> a \<and>
        a < 2 powr (real_of_int \<lfloor>log 2 a\<rfloor> + 1)"
    using floor_log_eq_powr_iff [of a 2 "\<lfloor>log 2 a\<rfloor>"] assms by simp
  moreover have "real_of_int \<lfloor>log 2 a\<rfloor> + 1 = real_of_int (\<lfloor>log 2 a\<rfloor> + 1)" by simp
  ultimately show "2 powi \<lfloor>log 2 a\<rfloor> \<le> a" "a < 2 powi (\<lfloor>log 2 a\<rfloor> + 1)"
    by (simp_all only: p)
qed

lemma round64_exact:
  assumes x: "x = of_int i * 2 powi z" and i: "\<bar>i\<bar> < 2 ^ 53" and z: "- 1074 \<le> z"
    and fin: "\<bar>x\<bar> < 2 ^ 1024"
  shows "round64 x = Num x"
proof (cases "x = 0")
  case True
  then show ?thesis by (simp add: round64_def)
next
  case False
  define a where "a = \<bar>x\<bar>"
  define k where "k = \<lfloor>log 2 a\<rfloor>"
  define e where "e = max (k - 52) (- 1074)"
  have a0: "0 < a" using False by (simp add: a_def)
  have a: "a = of_int \<bar>i\<bar> * 2 powi z"
    by (simp add: a_def x abs_mult)
  have "a < 2 ^ 53 * 2 powi z"
  proof -
    have "real_of_int \<bar>i\<bar> < 2 ^ 53" using i by (metis of_int_less_numeral_power_cancel_iff)
    then show ?thesis unfolding a by (simp add: mult_strict_right_mono)
  qed
  also have "\<dots> = 2 powi (53 + z)" by (simp add: power_int_add)
  finally have "2 powi k < (2::real) powi (53 + z)"
    using floor_log2_bounds(1) [OF a0] by (simp add: k_def)
  then have "k < 53 + z" by (rule powi2_less_D)
  then have ez: "e \<le> z" using z by (simp add: e_def)
  define j where "j = \<bar>i\<bar> * 2 ^ nat (z - e)"
  have "a / 2 powi e = of_int \<bar>i\<bar> * 2 powi (z - e)"
    by (simp add: a power_int_diff)
  also have "\<dots> = of_int j"
    using ez by (simp add: j_def power_int_def)
  finally have q: "a / 2 powi e = of_int j" .
  have v: "of_int j * 2 powi e = a" using q by (simp add: field_simps)
  have "round64 x = (if 2 ^ 1024 \<le> a then (if 0 < x then PInf else NInf)
                     else Num (if 0 < x then a else - a))"
    using False q v
    by (simp add: round64_def Let_def round_half_even_of_int a_def [symmetric] k_def [symmetric]
        e_def [symmetric])
  then show ?thesis using fin by (simp add: a_def)
qed


lemma round64_nat: "k < 2 ^ 53 \<Longrightarrow> round64 (real k) = Num (real k)"
proof -
  assume k: "k < 2 ^ 53"
  have "real k < 2 ^ 53" using k by (metis of_nat_less_numeral_power_cancel_iff)
  also have "\<dots> < (2::real) ^ 1024" by simp
  finally have "\<bar>real k\<bar> < 2 ^ 1024" by simp
  moreover have "\<bar>int k\<bar> < 2 ^ 53" using k by simp
  ultimately show ?thesis
    using round64_exact [of "real k" "int k" 0] by simp
qed


lemma round64_nonneg:
  assumes "0 < x"
  shows "round64 x = PInf \<or> (\<exists>t. 0 \<le> t \<and> round64 x = Num t)"
proof -
  define e where "e = max (\<lfloor>log 2 x\<rfloor> - 52) (- 1074)"
  define v where "v = real_of_int (round_half_even (x / 2 powi e)) * 2 powi e"
  have "real_of_int 0 \<le> x / 2 powi e" using assms by simp
  then have "0 \<le> round_half_even (x / 2 powi e)" by (rule round_half_even_ge)
  then have v: "0 \<le> v" by (simp add: v_def)
  have "round64 x = (if 2 ^ 1024 \<le> v then PInf else Num v)"
    using assms by (simp add: round64_def Let_def e_def v_def)
  then show ?thesis using v by auto
qed

lemma round64_numeral:
  "numeral n < (2::nat) ^ 53 \<Longrightarrow> round64 (numeral n) = Num (numeral n)"
  using round64_nat [of "numeral n"] by simp

text \<open>Rounding a number whose binade is known: the form used to evaluate examples.\<close>

lemma round64_binade:
  assumes "2 powi k \<le> \<bar>x\<bar>" "\<bar>x\<bar> < 2 powi (k + 1)"
  shows "round64 x =
     (let e = max (k - 52) (- 1074);
          m = round_half_even (\<bar>x\<bar> / 2 powi e);
          v = of_int m * 2 powi e
      in if 2 ^ 1024 \<le> v then (if 0 < x then PInf else NInf)
         else Num (if 0 < x then v else - v))"
proof -
  have p: "(2::real) powr real_of_int n = 2 powi n" for n
    by (simp add: powr_real_of_int')
  have "(0::real) < 2 powi k" by simp
  then have a0: "0 < \<bar>x\<bar>" using assms(1) by linarith
  have "real_of_int k + 1 = real_of_int (k + 1)" by simp
  then have "2 powr real_of_int k \<le> \<bar>x\<bar> \<and> \<bar>x\<bar> < 2 powr (real_of_int k + 1)"
    using assms by (simp only: p)
  then have "\<lfloor>log 2 \<bar>x\<bar>\<rfloor> = k"
    using floor_log_eq_powr_iff [of "\<bar>x\<bar>" 2 k] a0 by simp
  then show ?thesis using a0 by (simp add: round64_def)
qed

subsection \<open>Sums of whole numbers are exact\<close>

lemma pairwise_small: "length xs < 8 \<Longrightarrow> pairwise_sum xs = foldl fadd (Num 0) xs"
  by (subst pairwise_sum.simps) (simp add: Let_def)













subsection \<open>Mean and median\<close>

lemma notna_map_Num: "notna (map Num vs) = map Num vs"
  by (induction vs) simp_all


lemma insort_f_Num: "insort_f (Num x) (map Num ys) = map Num (insort x ys)"
  by (induction ys) simp_all

lemma sort_f_Num: "sort_f (map Num vs) = map Num (sort vs)"
  by (induction vs) (simp_all add: insort_f_Num)

lemma take1_drop: "i < length s \<Longrightarrow> take (Suc 0) (drop i s) = [s ! i]"
proof -
  assume "i < length s"
  then have "drop i s = s ! i # drop (Suc i) s"
    by (simp add: Cons_nth_drop_Suc)
  then show ?thesis by simp
qed












text \<open>
  For an odd count the median involves no rounding: for binary64 costs of any size it is
  exactly the middle value of the sorted sequence.
\<close>

lemma median_odd_exact:
  assumes "odd (length vs)" and "\<forall>v \<in> set vs. round64 v = Num v"
  shows "median_cac (map Num vs) = Num (spec_median vs)"
proof -
  let ?n = "length vs"
  have m: "?n mod 2 = 1" using assms(1) by presburger
  have i: "?n div 2 < length (sort vs)" using assms(1) by (cases vs) simp_all
  then have "sort vs ! (?n div 2) \<in> set (sort vs)" by (rule nth_mem)
  then have r: "round64 (sort vs ! (?n div 2)) = Num (sort vs ! (?n div 2))"
    using assms(2) by simp
  have "np_mean [Num (sort vs ! (?n div 2))] = Num (sort vs ! (?n div 2))"
    using r by (simp add: np_mean_def pairwise_small)
  moreover have "vs \<noteq> []" using assms(1) by auto
  ultimately show ?thesis using assms(1) m i
    by (simp add: median_cac_def series_median_def notna_map_Num sort_f_Num spec_median_def
        take1_drop Let_def)
qed

text \<open>
  The median of the specification is a median: at least half of the values are at most
  it, and at least half are at least it.
\<close>

lemma count_sort: "length (filter P (sort vs)) = length (filter P vs)"
  by (simp add: filter_sort)

lemma sorted_count_le:
  assumes "sorted s" "k < length s" "s ! k \<le> x"
  shows "Suc k \<le> length (filter (\<lambda>v. v \<le> x) s)"
proof -
  have "\<forall>v \<in> set (take (Suc k) s). v \<le> x"
  proof
    fix v assume "v \<in> set (take (Suc k) s)"
    then obtain i where "i < Suc k" "v = s ! i"
      using assms(2) by (auto simp: in_set_conv_nth)
    then have "v \<le> s ! k" using assms(1,2) by (simp add: sorted_nth_mono)
    then show "v \<le> x" using assms(3) by simp
  qed
  then have "filter (\<lambda>v. v \<le> x) (take (Suc k) s) = take (Suc k) s" by simp
  moreover have "s = take (Suc k) s @ drop (Suc k) s" by simp
  ultimately have "filter (\<lambda>v. v \<le> x) s = take (Suc k) s @ filter (\<lambda>v. v \<le> x) (drop (Suc k) s)"
    by (metis filter_append)
  then have "length (filter (\<lambda>v. v \<le> x) s) = length (take (Suc k) s) + length (filter (\<lambda>v. v \<le> x) (drop (Suc k) s))"
    by simp
  then show ?thesis using assms(2) by simp
qed

lemma sorted_count_ge:
  assumes "sorted s" "k < length s" "x \<le> s ! k"
  shows "length s - k \<le> length (filter (\<lambda>v. x \<le> v) s)"
proof -
  have "\<forall>v \<in> set (drop k s). x \<le> v"
  proof
    fix v assume "v \<in> set (drop k s)"
    then obtain i where "i < length s - k" "v = s ! (k + i)"
      by (auto simp: in_set_conv_nth)
    then have "s ! k \<le> v" using assms(1) by (simp add: sorted_nth_mono)
    then show "x \<le> v" using assms(3) by simp
  qed
  then have "filter (\<lambda>v. x \<le> v) (drop k s) = drop k s" by simp
  moreover have "s = take k s @ drop k s" by simp
  ultimately have "filter (\<lambda>v. x \<le> v) s = filter (\<lambda>v. x \<le> v) (take k s) @ drop k s"
    by (metis filter_append)
  then have "length (filter (\<lambda>v. x \<le> v) s) = length (filter (\<lambda>v. x \<le> v) (take k s)) + length (drop k s)"
    by simp
  then show ?thesis by simp
qed

lemma spec_median_between:
  assumes "vs \<noteq> []"
  shows "\<exists>i j. i < length vs \<and> j < length vs \<and> length vs \<le> 2 * i + 2 \<and>
               2 * j \<le> length vs \<and>
               sort vs ! i \<le> spec_median vs \<and> spec_median vs \<le> sort vs ! j"
proof (cases "odd (length vs)")
  case True
  have "length vs div 2 < length vs" using assms by simp
  moreover have "length vs \<le> 2 * (length vs div 2) + 2" by simp
  ultimately show ?thesis using True
    by (intro exI [of _ "length vs div 2"]) (simp add: spec_median_def)
next
  case False
  then have e: "even (length vs)" by simp
  moreover have "length vs \<noteq> 0" using assms by simp
  ultimately have n: "2 \<le> length vs" by presburger
  define h where "h = length vs div 2"
  have h: "length vs = 2 * h" "0 < h" using e n by (auto simp: h_def)
  have lt: "h - 1 < length vs" "h < length vs" using h by simp_all
  have "sort vs ! (h - 1) \<le> sort vs ! h"
    using lt by (simp add: sorted_nth_mono)
  then have "sort vs ! (h - 1) \<le> spec_median vs \<and> spec_median vs \<le> sort vs ! h"
    using e by (simp add: spec_median_def h_def Let_def field_simps)
  moreover have "length vs \<le> 2 * (h - 1) + 2" "2 * h \<le> length vs" using h by simp_all
  ultimately show ?thesis using lt by blast
qed

lemma spec_median_splits:
  assumes "vs \<noteq> []"
  shows "length vs \<le> 2 * length (filter (\<lambda>v. v \<le> spec_median vs) vs) \<and>
         length vs \<le> 2 * length (filter (\<lambda>v. spec_median vs \<le> v) vs)"
proof -
  obtain i j where ij: "i < length vs" "j < length vs" "length vs \<le> 2 * i + 2"
    "2 * j \<le> length vs" "sort vs ! i \<le> spec_median vs" "spec_median vs \<le> sort vs ! j"
    using spec_median_between [OF assms] by blast
  have "Suc i \<le> length (filter (\<lambda>v. v \<le> spec_median vs) (sort vs))"
    using ij(1,5) by (intro sorted_count_le) simp_all
  then have a: "Suc i \<le> length (filter (\<lambda>v. v \<le> spec_median vs) vs)"
    by (simp only: count_sort)
  have "length (sort vs) - j \<le> length (filter (\<lambda>v. spec_median vs \<le> v) (sort vs))"
    using ij(2,6) by (intro sorted_count_ge) simp_all
  then have b: "length vs - j \<le> length (filter (\<lambda>v. spec_median vs \<le> v) vs)"
    by (simp only: count_sort length_sort)
  define n A B where "n = length vs"
    and "A = length (filter (\<lambda>v. v \<le> spec_median vs) vs)"
    and "B = length (filter (\<lambda>v. spec_median vs \<le> v) vs)"
  have "i < A" "n - j \<le> B" "n \<le> 2 * i + 2" "2 * j \<le> n"
    using a b ij(3,4) by (simp_all only: n_def A_def B_def Suc_le_eq)
  then have "n \<le> 2 * A" "n \<le> 2 * B" by linarith+
  then show ?thesis by (simp only: n_def A_def B_def)
qed

subsection \<open>Decimal formatting\<close>

lemma is_digit_digit_char: "d < 10 \<Longrightarrow> is_digit (digit_char d)"
  unfolding is_digit_def digit_char_def by (rule nth_mem) simp

lemma str_nat_digits: "str_nat n \<noteq> [] \<and> list_all is_digit (str_nat n)"
proof (induction n rule: str_nat.induct)
  case (1 n)
  show ?case
  proof (cases "n < 10")
    case True
    then show ?thesis by (simp add: str_nat.simps [of n] is_digit_digit_char)
  next
    case False
    then show ?thesis using 1 by (simp add: str_nat.simps [of n] is_digit_digit_char)
  qed
qed

lemma zfill2_digits:
  assumes "k < 100"
  shows "\<exists>a b. zfill 2 (str_nat k) = [a, b] \<and> is_digit a \<and> is_digit b"
proof (cases "k < 10")
  case True
  then have "zfill 2 (str_nat k) = [CHR ''0'', digit_char k]"
    by (simp add: str_nat.simps [of k] zfill_def)
  moreover have "is_digit (CHR ''0'')" by (simp add: is_digit_def)
  ultimately show ?thesis using True by (simp add: is_digit_digit_char)
next
  case False
  then have "k div 10 < 10" using assms by simp
  then have "str_nat k = [digit_char (k div 10), digit_char (k mod 10)]"
    using False by (simp add: str_nat.simps [of k] str_nat.simps [of "k div 10"])
  then have "zfill 2 (str_nat k) = [digit_char (k div 10), digit_char (k mod 10)]"
    by (simp add: zfill_def)
  then show ?thesis using \<open>k div 10 < 10\<close> by (simp add: is_digit_digit_char)
qed

lemma digit_not_minus: "is_digit c \<Longrightarrow> c \<noteq> CHR ''-''"
  by (auto simp: is_digit_def)

lemma two_decimals_shape:
  assumes "ip \<noteq> []" "list_all is_digit ip" "is_digit a" "is_digit b"
  shows "two_decimals (ip @ ''.'' @ [a, b])" "two_decimals (''-'' @ ip @ ''.'' @ [a, b])"
proof -
  obtain d ds where ip: "ip = d # ds" using assms(1) by (cases ip) auto
  then have "d \<noteq> CHR ''-''" using assms(2) by (simp add: digit_not_minus)
  then show "two_decimals (ip @ ''.'' @ [a, b])"
    using assms ip by (simp add: two_decimals_def)
  show "two_decimals (''-'' @ ip @ ''.'' @ [a, b])"
    using assms by (simp add: two_decimals_def)
qed

lemma two_decimals_format: "two_decimals (format_f 2 (Num r))"
proof -
  define n where "n = nat (round_half_even (\<bar>r\<bar> * 10 ^ 2))"
  have "n mod 10 ^ 2 < 100" by simp
  then obtain a b where ab: "zfill 2 (str_nat (n mod 10 ^ 2)) = [a, b]" "is_digit a" "is_digit b"
    using zfill2_digits by blast
  have f: "format_f 2 (Num r) =
      (if r < 0 then ''-'' else '''') @ str_nat (n div 10 ^ 2) @ ''.'' @ [a, b]"
    using ab(1) by (simp add: n_def Let_def)
  have ip: "str_nat (n div 10 ^ 2) \<noteq> []" "list_all is_digit (str_nat (n div 10 ^ 2))"
    using str_nat_digits by blast+
  show ?thesis
  proof (cases "r < 0")
    case True
    then have "format_f 2 (Num r) = ''-'' @ str_nat (n div 10 ^ 2) @ ''.'' @ [a, b]"
      by (simp only: f if_True)
    then show ?thesis
      using two_decimals_shape(2) [OF ip ab(2) ab(3)] by (simp only:)
  next
    case False
    then have "format_f 2 (Num r) = str_nat (n div 10 ^ 2) @ ''.'' @ [a, b]"
      by (simp only: f if_False append_Nil)
    then show ?thesis
      using two_decimals_shape(1) [OF ip ab(2) ab(3)] by (simp only:)
  qed
qed

lemma format_finite: "is_finite x \<Longrightarrow> two_decimals (format_f 2 x)"
  using two_decimals_format by (cases x) (simp_all only: is_finite.simps)

lemma format_not_finite: "\<not> is_finite x \<Longrightarrow> format_f 2 x \<in> {''nan'', ''inf'', ''-inf''}"
  by (cases x) simp_all

lemmas format_eval = round_half_even_def str_nat.simps digit_char_def zfill_def

lemma format_benchmark: "format_f 2 BENCHMARK = ''150.00''" "format_f 0 BENCHMARK = ''150''"
  by (simp_all add: BENCHMARK_def format_eval)

lemma str_nat_small: "str_nat 0 = ''0''" "str_nat (Suc 0) = ''1''"
  by (simp_all add: str_nat.simps digit_char_def)

subsection \<open>The steps of the run\<close>

lemma paths_distinct:
  "trend_path \<noteq> cmp_path" "trend_path \<noteq> summary_path" "cmp_path \<noteq> summary_path"
  by (simp_all add: trend_path_def cmp_path_def summary_path_def path_join_def FIG_DIR_def)

lemma report_files:
  "files (report df quarters cacs w) =
     (files w)(trend_path \<mapsto> Png 150 (trend_figure quarters cacs),
               cmp_path \<mapsto> Png 150 (comparison_figure cacs),
               summary_path \<mapsto> TextFile (summary_text df cacs))"
  by (simp add: report_def print_metrics_def plot_trend_def plot_comparison_def
      write_summary_def py_print_def savefig_def write_file_def)

lemma report_dirs: "dirs (report df quarters cacs w) = dirs w"
  by (simp add: report_def print_metrics_def plot_trend_def plot_comparison_def
      write_summary_def py_print_def savefig_def write_file_def)

lemma report_stdout:
  "stdout (report df quarters cacs w) =
     stdout w @
     [''Read '' @ str_nat (len_df df) @ '' rows from '' @ DATA_PATH,
      ''Average CAC: '' @ format_f 2 (mean_cac cacs),
      ''Median CAC: '' @ format_f 2 (median_cac cacs),
      ''For verification: '' @ EMAIL,
      verification_line (mean_cac cacs),
      ''Saved CAC trend figure to: '' @ trend_path,
      ''Saved benchmark comparison figure to: '' @ cmp_path,
      ''Wrote analysis_summary.txt'',
      ''Analysis complete.'']"
  by (simp add: report_def print_metrics_def plot_trend_def plot_comparison_def
      write_summary_def py_print_def savefig_def write_file_def)

lemma main_failed:
  "read_data L csv = Inl e \<Longrightarrow> main L csv w = (Some e, makedirs FIG_DIR w)"
  by (simp add: main_def)

lemma main_ok:
  "read_data L csv = Inr (df, quarters, cacs) \<Longrightarrow>
   main L csv w = (None, report df quarters cacs (makedirs FIG_DIR w))"
  by (simp add: main_def)

lemma read_data_missing_column:
  "''cac'' \<notin> set (columns df) \<or> ''quarter'' \<notin> set (columns df) \<Longrightarrow>
   read_data L (Inr df) = Inl (ValueError ''CSV must contain 'quarter' and 'cac' columns'')"
  by (auto simp: read_data_def)

lemma main_succeeds_iff:
  "fst (main L csv w) = None \<longleftrightarrow> (\<exists>df quarters cacs. read_data L csv = Inr (df, quarters, cacs))"
  by (cases "read_data L csv") (auto simp: main_def)

lemma read_no_rows:
  "''quarter'' \<in> set (columns df) \<Longrightarrow> ''cac'' \<in> set (columns df) \<Longrightarrow> rows df = [] \<Longrightarrow>
   read_data L (Inr df) = Inr (df, [], [])"
  by (simp add: read_data_def getitem_def astype_str_def)

lemma makedirs_fields:
  "dirs (makedirs p w) = insert p (dirs w)" "files (makedirs p w) = files w"
  "stdout (makedirs p w) = stdout w"
  by (simp_all add: makedirs_def)

lemma run_completes:
  assumes "read_data L csv = Inr (df, quarters, cacs)"
  shows "fst (main L csv w) = None \<and>
         last (stdout (snd (main L csv w))) = ''Analysis complete.'' \<and>
         files (snd (main L csv w)) trend_path = Some (Png 150 (trend_figure quarters cacs)) \<and>
         files (snd (main L csv w)) cmp_path = Some (Png 150 (comparison_figure cacs)) \<and>
         files (snd (main L csv w)) summary_path = Some (TextFile (summary_text df cacs))"
  using paths_distinct by (simp add: main_ok [OF assms] report_files report_stdout)

subsection \<open>The summary text\<close>

lemma sublist_unlines: "l \<in> set ls \<Longrightarrow> sublist (l @ [CHR 0x0A]) (unlines ls)"
proof -
  assume "l \<in> set ls"
  then obtain as bs where "ls = as @ l # bs" by (auto dest: split_list)
  then have "unlines ls = unlines as @ (l @ [CHR 0x0A]) @ unlines bs"
    by (simp add: unlines_def)
  then show ?thesis by (metis sublist_appendI)
qed

lemma summary_written:
  "read_data L csv = Inr (df, quarters, cacs) \<Longrightarrow>
   files (snd (main L csv w)) summary_path = Some (TextFile (summary_text df cacs))"
  by (simp add: main_ok report_files)

subsection \<open>The verification line\<close>

text \<open>
  On NaN every comparison is false, so the \<open>Verified\<close> line is printed.  A mean equal to
  the constant prints \<open>Verified\<close> as well.
\<close>

lemma verification_NaN:
  "verification_line NaN = ''Verified: computed mean equals required README value 229.56''"
  by (simp add: verification_line_def fsub_def)

lemma fsub_self: "fsub (Num r) (Num r) = Num 0"
  by (simp add: fsub_def round64_def)

lemma verification_exact:
  "verification_line REQUIRED_MEAN =
     ''Verified: computed mean equals required README value 229.56''"
proof -
  have t: "\<not> fgt (Num 0) (round64 (1 / 1000000))"
    using round64_nonneg [of "1 / 1000000"] by auto
  have n: "\<not> fgt NaN (round64 (1 / 1000000))" by simp
  show ?thesis
  proof (cases REQUIRED_MEAN)
    case (Num r)
    show ?thesis using t by (simp add: verification_line_def Num fsub_self)
  qed (simp_all add: verification_line_def fsub_def)
qed

text \<open>The two constants of the check as binary64 values, and the check at a mean of 175.\<close>

lemma required_mean_value: "REQUIRED_MEAN = Num (8076924456712274 / 2 ^ 45)"
  unfolding REQUIRED_MEAN_def
  by (subst round64_binade [of 7]) (simp_all add: round_half_even_def Let_def)

lemma tolerance_value: "round64 (1 / 1000000) = Num (4722366482869645 / 2 ^ 72)"
  by (subst round64_binade [of "- 20"]) (simp_all add: round_half_even_def Let_def)

lemma verification_spec_example:
  "verification_line (Num 175) = ''WARNING: computed mean does not equal REQUIRED_MEAN (229.56).''"
proof -
  have "fsub (Num 175) REQUIRED_MEAN = round64 (175 - 8076924456712274 / 2 ^ 45)"
    by (simp add: required_mean_value fsub_def)
  also have "\<dots> = Num (- (1919659341166674 / 2 ^ 45))"
    by (subst round64_binade [of 5]) (simp_all add: round_half_even_def Let_def)
  finally show ?thesis
    by (simp add: verification_line_def tolerance_value)
qed

subsection \<open>The example inputs, evaluated\<close>

lemmas metrics_eval = mean_cac_def median_cac_def series_mean_def series_median_def
  np_mean_def pairwise_small round64_numeral

lemmas read_eval = read_data_def getitem_def astype_str_def round64_numeral

lemma read_spec_example:
  "read_data plain_lib (Inr spec_example) =
     Inr (spec_example, [''Q1'', ''Q2'', ''Q3'', ''Q4''], [Num 100, Num 150, Num 200, Num 250])"
  by (simp add: read_eval spec_example_def)

lemma read_header_only: "read_data plain_lib (Inr header_only) = Inr (header_only, [], [])"
  by (simp add: read_eval header_only_def)

lemma read_low_cost: "read_data plain_lib (Inr low_cost) = Inr (low_cost, [''Q1''], [Num 100])"
  by (simp add: read_eval low_cost_def)

lemma read_blank_cost: "read_data plain_lib (Inr blank_cost) = Inr (blank_cost, [''Q1''], [NaN])"
  by (simp add: read_eval blank_cost_def)

lemma read_two_blank_costs:
  "read_data plain_lib (Inr two_blank_costs) = Inr (two_blank_costs, [''Q1'', ''Q2''], [NaN, NaN])"
  by (simp add: read_eval two_blank_costs_def)

lemma read_inf_cost: "read_data plain_lib (Inr inf_cost) = Inr (inf_cost, [''Q1''], [PInf])"
  by (simp add: read_eval inf_cost_def)

lemma metrics_spec_example:
  "mean_cac [Num 100, Num 150, Num 200, Num 250] = Num 175"
  "median_cac [Num 100, Num 150, Num 200, Num 250] = Num 175"
  by (simp_all add: metrics_eval)

lemma metrics_empty: "mean_cac [] = NaN" "median_cac [] = NaN"
  by (simp_all add: metrics_eval)

lemma metrics_blank: "mean_cac [NaN] = NaN" "median_cac [NaN] = NaN"
  by (simp_all add: metrics_eval)

lemma metrics_inf: "mean_cac [PInf] = PInf" "median_cac [PInf] = PInf"
  by (simp_all add: metrics_eval)

lemma summary_low_cost:
  "summary_text low_cost [Num 100] =
     unlines
       [''CAC Analysis Summary'',
        ''--------------------'',
        ''Rows analyzed: 1'',
        ''Average CAC: 100.00'',
        ''Median CAC: 100.00'',
        ''Industry benchmark: 150.00'',
        '''',
        ''Key insight:'',
        ''- Current average CAC (100.00) is higher than the industry benchmark (150.00).'',
        ''- Recommended solution: optimize digital marketing channels (reallocate spend to organic/referral, improve conversion funnel, A/B test landing pages, etc).'',
        '''',
        ''Contact for verification: 23f3001359@ds.study.iitm.ac.in'']"
  by (simp add: summary_text_def summary_lines_def metrics_eval format_eval BENCHMARK_def
      EMAIL_def len_df_def low_cost_def)

lemma summary_header_only:
  "summary_text header_only [] =
     unlines
       [''CAC Analysis Summary'',
        ''--------------------'',
        ''Rows analyzed: 0'',
        ''Average CAC: nan'',
        ''Median CAC: nan'',
        ''Industry benchmark: 150.00'',
        '''',
        ''Key insight:'',
        ''- Current average CAC (nan) is higher than the industry benchmark (150.00).'',
        ''- Recommended solution: optimize digital marketing channels (reallocate spend to organic/referral, improve conversion funnel, A/B test landing pages, etc).'',
        '''',
        ''Contact for verification: 23f3001359@ds.study.iitm.ac.in'']"
  by (simp add: summary_text_def summary_lines_def metrics_eval format_eval BENCHMARK_def
      EMAIL_def len_df_def header_only_def)


lemma summary_inf_text:
  "summary_text inf_cost [PInf] =
     unlines
       [''CAC Analysis Summary'',
        ''--------------------'',
        ''Rows analyzed: 1'',
        ''Average CAC: inf'',
        ''Median CAC: inf'',
        ''Industry benchmark: 150.00'',
        '''',
        ''Key insight:'',
        ''- Current average CAC (inf) is higher than the industry benchmark (150.00).'',
        ''- Recommended solution: optimize digital marketing channels (reallocate spend to organic/referral, improve conversion funnel, A/B test landing pages, etc).'',
        '''',
        ''Contact for verification: 23f3001359@ds.study.iitm.ac.in'']"
  by (simp add: summary_text_def summary_lines_def metrics_inf format_benchmark EMAIL_def
      len_df_def inf_cost_def str_nat_small)

lemma summary_inf_cost:
  "files (snd (main plain_lib (Inr inf_cost) fresh_world)) summary_path =
     Some (TextFile (unlines
       [''CAC Analysis Summary'',
        ''--------------------'',
        ''Rows analyzed: 1'',
        ''Average CAC: inf'',
        ''Median CAC: inf'',
        ''Industry benchmark: 150.00'',
        '''',
        ''Key insight:'',
        ''- Current average CAC (inf) is higher than the industry benchmark (150.00).'',
        ''- Recommended solution: optimize digital marketing channels (reallocate spend to organic/referral, improve conversion funnel, A/B test landing pages, etc).'',
        '''',
        ''Contact for verification: 23f3001359@ds.study.iitm.ac.in'']))"
  by (simp add: main_ok [OF read_inf_cost] report_files summary_inf_text [symmetric])

text \<open>
  Rounding shows in the output.  The costs 0.02 and 0.03 have the mean 0.025 in exact
  arithmetic, which would be printed as 0.02; the binary64 mean lies just above it and
  is printed as 0.03.  A whole number beyond \<open>2^53\<close> is rounded when it becomes a float.
\<close>

lemma tie_values:
  "round64 (2 / 100) = Num (5764607523034235 / 2 ^ 58)"
  "round64 (3 / 100) = Num (8646911284551352 / 2 ^ 58)"
  "round64 (5764607523034235 / 2 ^ 58) = Num (5764607523034235 / 2 ^ 58)"
  "round64 (5764607523034235 / 2 ^ 58 + 8646911284551352 / 2 ^ 58) =
     Num (7205759403792794 / 2 ^ 57)"
  "round64 (7205759403792794 / 2 ^ 57 / 2) = Num (7205759403792794 / 2 ^ 58)"
proof -
  show "round64 (2 / 100) = Num (5764607523034235 / 2 ^ 58)"
    by (subst round64_binade [of "- 6"]) (simp_all add: round_half_even_def Let_def)
  show "round64 (3 / 100) = Num (8646911284551352 / 2 ^ 58)"
    by (subst round64_binade [of "- 6"]) (simp_all add: round_half_even_def Let_def)
  show "round64 (5764607523034235 / 2 ^ 58) = Num (5764607523034235 / 2 ^ 58)"
    by (subst round64_binade [of "- 6"]) (simp_all add: round_half_even_def Let_def)
  show "round64 (5764607523034235 / 2 ^ 58 + 8646911284551352 / 2 ^ 58) =
     Num (7205759403792794 / 2 ^ 57)"
    by (subst round64_binade [of "- 5"]) (simp_all add: round_half_even_def Let_def)
  show "round64 (7205759403792794 / 2 ^ 57 / 2) = Num (7205759403792794 / 2 ^ 58)"
    by (subst round64_binade [of "- 6"]) (simp_all add: round_half_even_def Let_def)
qed

lemma tie_example:
  "astype_float L [FloatNum (Num (2 / 100)), FloatNum (Num (3 / 100))] =
     Inr [Num (5764607523034235 / 2 ^ 58), Num (8646911284551352 / 2 ^ 58)]"
  "mean_cac [Num (5764607523034235 / 2 ^ 58), Num (8646911284551352 / 2 ^ 58)] =
     Num (7205759403792794 / 2 ^ 58)"
  "format_f 2 (Num (7205759403792794 / 2 ^ 58)) = ''0.03''"
  "format_f 2 (Num (25 / 1000)) = ''0.02''"
proof -
  show "astype_float L [FloatNum (Num (2 / 100)), FloatNum (Num (3 / 100))] =
     Inr [Num (5764607523034235 / 2 ^ 58), Num (8646911284551352 / 2 ^ 58)]"
    using tie_values(1,2) by simp
  have "fadd (Num 0) (Num (5764607523034235 / 2 ^ 58)) = Num (5764607523034235 / 2 ^ 58)"
    using tie_values(3) by simp
  moreover have "fadd (Num (5764607523034235 / 2 ^ 58)) (Num (8646911284551352 / 2 ^ 58)) =
      Num (7205759403792794 / 2 ^ 57)"
    using tie_values(4) by (simp only: fadd.simps)
  moreover have "fdiv_count (Num (7205759403792794 / 2 ^ 57)) 2 = Num (7205759403792794 / 2 ^ 58)"
    using tie_values(5) by (simp only: fdiv_count.simps of_nat_numeral)
  ultimately show "mean_cac [Num (5764607523034235 / 2 ^ 58), Num (8646911284551352 / 2 ^ 58)] =
     Num (7205759403792794 / 2 ^ 58)"
    by (simp only: mean_cac_def series_mean_def Let_def notna.simps fillna0.simps
        pairwise_small list.size
        foldl.simps) simp
  show "format_f 2 (Num (7205759403792794 / 2 ^ 58)) = ''0.03''"
    by (simp add: format_eval)
  show "format_f 2 (Num (25 / 1000)) = ''0.02''"
    by (simp add: format_eval)
qed

lemma int_cell_rounds: "cell_float L (IntNum (2 ^ 53 + 1)) = Inr (Num (2 ^ 53))"
proof -
  have "round64 (2 ^ 53 + 1) = Num (2 ^ 53)"
    by (subst round64_binade [of 53]) (simp_all add: round_half_even_def Let_def)
  then show ?thesis by simp
qed

section \<open>The claims\<close>

subsection \<open>C1\<close>




subsection \<open>C2\<close>

text \<open>
  C2.  For every input table whose header lacks the \<open>cac\<close> column or the \<open>quarter\<close>
  column, the run ends with the validation error; nothing is printed (the metrics are
  never computed) and no file is written (no chart is rendered).
\<close>

theorem C2_missing_column_fails:
  assumes "''cac'' \<notin> set (columns df) \<or> ''quarter'' \<notin> set (columns df)"
  shows "fst (main L (Inr df) w) = Some (ValueError ''CSV must contain 'quarter' and 'cac' columns'') \<and>
         stdout (snd (main L (Inr df) w)) = stdout w \<and>
         files (snd (main L (Inr df) w)) = files w"
  using main_failed [OF read_data_missing_column [OF assms]]
  by (simp add: makedirs_fields)

text \<open>C2 at a table whose cost column is named \<open>cost\<close>.\<close>

theorem C2_missing_column_fails_witness:
  "''cac'' \<notin> set (columns no_cac_column) \<and>
   fst (main plain_lib (Inr no_cac_column) fresh_world) =
     Some (ValueError ''CSV must contain 'quarter' and 'cac' columns'') \<and>
   stdout (snd (main plain_lib (Inr no_cac_column) fresh_world)) = [] \<and>
   files (snd (main plain_lib (Inr no_cac_column) fresh_world)) trend_path = None"
proof -
  have h: "''cac'' \<notin> set (columns no_cac_column) \<or> ''quarter'' \<notin> set (columns no_cac_column)"
    by (simp add: no_cac_column_def)
  show ?thesis
    using C2_missing_column_fails [OF h, of plain_lib fresh_world]
    by (simp add: no_cac_column_def fresh_world_def)
qed

subsection \<open>C3\<close>

text \<open>
  C3 as stated fails: there is no comparison of the mean with the benchmark behind the
  wording.  For a single cost of 100 the mean is below 150 and the summary still says
  that the average is higher than the benchmark.
\<close>

theorem C3_low_mean_still_higher:
  "fst (main plain_lib (Inr low_cost) fresh_world) = None \<and>
   mean_cac [Num 100] = Num 100 \<and> fgt BENCHMARK (mean_cac [Num 100]) \<and>
   files (snd (main plain_lib (Inr low_cost) fresh_world)) summary_path =
     Some (TextFile (unlines
       [''CAC Analysis Summary'',
        ''--------------------'',
        ''Rows analyzed: 1'',
        ''Average CAC: 100.00'',
        ''Median CAC: 100.00'',
        ''Industry benchmark: 150.00'',
        '''',
        ''Key insight:'',
        ''- Current average CAC (100.00) is higher than the industry benchmark (150.00).'',
        ''- Recommended solution: optimize digital marketing channels (reallocate spend to organic/referral, improve conversion funnel, A/B test landing pages, etc).'',
        '''',
        ''Contact for verification: 23f3001359@ds.study.iitm.ac.in'']))"
  by (simp add: main_ok [OF read_low_cost] report_files
      summary_low_cost [symmetric] metrics_eval BENCHMARK_def)

text \<open>
  C3, amended.  The insight line of the summary is a fixed sentence with the formatted
  mean and benchmark inserted: for every dataset it says that the current average is
  higher than the industry benchmark, whether or not it is.
\<close>

theorem C3_insight_fixed_wording:
  assumes "read_data L csv = Inr (df, quarters, cacs)"
  shows "files (snd (main L csv w)) summary_path = Some (TextFile (summary_text df cacs)) \<and>
         sublist (''- Current average CAC ('' @ format_f 2 (mean_cac cacs) @
                  '') is higher than the industry benchmark (150.00).'' @ [CHR 0x0A])
           (summary_text df cacs)"
proof -
  have "''- Current average CAC ('' @ format_f 2 (mean_cac cacs) @
        '') is higher than the industry benchmark (150.00).'' \<in> set (summary_lines df cacs)"
    by (simp add: summary_lines_def format_benchmark)
  from sublist_unlines [OF this] show ?thesis
    by (simp add: summary_written [OF assms] summary_text_def)
qed

text \<open>C3, amended, at the single cost of 100.\<close>

theorem C3_insight_fixed_wording_witness:
  "files (snd (main plain_lib (Inr low_cost) fresh_world)) summary_path =
     Some (TextFile (summary_text low_cost [Num 100])) \<and>
   sublist (''- Current average CAC (100.00) is higher than the industry benchmark (150.00).''
            @ [CHR 0x0A])
     (summary_text low_cost [Num 100])"
  using C3_insight_fixed_wording [OF read_low_cost, of fresh_world]
  by (simp add: metrics_eval format_eval)

subsection \<open>C4\<close>

text \<open>
  C4 as stated fails: the script calls \<open>os.makedirs\<close> before it reads the data, so a run
  that aborts on a missing column has already made the \<open>figures\<close> directory.
\<close>

theorem C4_directory_made_before_check:
  "''cac'' \<notin> set (columns no_cac_column) \<and>
   ''figures'' \<notin> dirs fresh_world \<and>
   fst (main plain_lib (Inr no_cac_column) fresh_world) \<noteq> None \<and>
   ''figures'' \<in> dirs (snd (main plain_lib (Inr no_cac_column) fresh_world))"
  by (simp add: main_def read_data_def no_cac_column_def fresh_world_def makedirs_def FIG_DIR_def)

text \<open>
  C4, amended.  When a required column is missing the run aborts with the validation
  error before any image or text file is written; the only trace it leaves in the file
  system is the \<open>figures\<close> directory, made before the data is read.
\<close>

theorem C4_abort_leaves_only_directory:
  assumes "''cac'' \<notin> set (columns df) \<or> ''quarter'' \<notin> set (columns df)"
  shows "fst (main L (Inr df) w) = Some (ValueError ''CSV must contain 'quarter' and 'cac' columns'') \<and>
         files (snd (main L (Inr df) w)) = files w \<and>
         dirs (snd (main L (Inr df) w)) = insert ''figures'' (dirs w)"
  using main_failed [OF read_data_missing_column [OF assms]]
  by (simp add: makedirs_fields FIG_DIR_def)

text \<open>C4, amended, at the table without a \<open>cac\<close> column in an empty directory.\<close>

theorem C4_abort_leaves_only_directory_witness:
  "''cac'' \<notin> set (columns no_cac_column) \<and>
   fst (main plain_lib (Inr no_cac_column) fresh_world) =
     Some (ValueError ''CSV must contain 'quarter' and 'cac' columns'') \<and>
   files (snd (main plain_lib (Inr no_cac_column) fresh_world)) summary_path = None \<and>
   dirs (snd (main plain_lib (Inr no_cac_column) fresh_world)) = {''figures''}"
proof -
  have h: "''cac'' \<notin> set (columns no_cac_column) \<or> ''quarter'' \<notin> set (columns no_cac_column)"
    by (simp add: no_cac_column_def)
  show ?thesis
    using C4_abort_leaves_only_directory [OF h, of plain_lib fresh_world]
    by (simp add: no_cac_column_def fresh_world_def)
qed

subsection \<open>C5\<close>

text \<open>
  C5 fails on the code when the mean is NaN: every comparison with NaN is false, so the
  warning branch is not taken and the run prints that the mean equals 229.56.  Here the
  only cost cell is blank.
\<close>

theorem C5_nan_mean_prints_verified:
  "fst (main plain_lib (Inr blank_cost) fresh_world) = None \<and>
   mean_cac [NaN] = NaN \<and>
   \<not> within_tolerance (mean_cac [NaN]) \<and>
   stdout (snd (main plain_lib (Inr blank_cost) fresh_world)) =
     [''Read 1 rows from quarterly_cac.csv'',
      ''Average CAC: nan'',
      ''Median CAC: nan'',
      ''For verification: 23f3001359@ds.study.iitm.ac.in'',
      ''Verified: computed mean equals required README value 229.56'',
      ''Saved CAC trend figure to: figures/cac_trend.png'',
      ''Saved benchmark comparison figure to: figures/cac_benchmark_comparison.png'',
      ''Wrote analysis_summary.txt'',
      ''Analysis complete.'']"
proof -
  have "len_df blank_cost = 1" by (simp add: len_df_def blank_cost_def)
  then show ?thesis
    by (simp add: main_ok [OF read_blank_cost] report_stdout makedirs_fields metrics_blank
        verification_NaN within_tolerance_def str_nat_small DATA_PATH_def EMAIL_def
        trend_path_def cmp_path_def path_join_def FIG_DIR_def fresh_world_def)
qed

text \<open>The console of that run holds the \<open>Verified\<close> line and no warning.\<close>

theorem C5_nan_mean_prints_verified_witness:
  "''Verified: computed mean equals required README value 229.56''
     \<in> set (stdout (snd (main plain_lib (Inr blank_cost) fresh_world))) \<and>
   ''WARNING: computed mean does not equal REQUIRED_MEAN (229.56).''
     \<notin> set (stdout (snd (main plain_lib (Inr blank_cost) fresh_world)))"
  using C5_nan_mean_prints_verified by simp

subsection \<open>C6\<close>

text \<open>
  C6 fails on the code when the mean is NaN.  With every cost cell blank the mean is
  not within the tolerance of 229.56, and the run is not stopped by that: it reaches its
  last line and writes both charts and the summary.  But no warning is logged: the
  console shows the \<open>Verified\<close> line.
\<close>

theorem C6_nan_mismatch_logs_no_warning:
  "fst (main plain_lib (Inr two_blank_costs) fresh_world) = None \<and>
   \<not> within_tolerance (mean_cac [NaN, NaN]) \<and>
   ''WARNING: computed mean does not equal REQUIRED_MEAN (229.56).''
     \<notin> set (stdout (snd (main plain_lib (Inr two_blank_costs) fresh_world))) \<and>
   last (stdout (snd (main plain_lib (Inr two_blank_costs) fresh_world))) =
     ''Analysis complete.'' \<and>
   files (snd (main plain_lib (Inr two_blank_costs) fresh_world)) trend_path =
     Some (Png 150 (trend_figure [''Q1'', ''Q2''] [NaN, NaN])) \<and>
   files (snd (main plain_lib (Inr two_blank_costs) fresh_world)) cmp_path =
     Some (Png 150 (comparison_figure [NaN, NaN])) \<and>
   files (snd (main plain_lib (Inr two_blank_costs) fresh_world)) summary_path =
     Some (TextFile (summary_text two_blank_costs [NaN, NaN]))"
proof -
  have m: "mean_cac [NaN, NaN] = NaN" by (simp add: metrics_eval)
  show ?thesis
    using paths_distinct
    by (simp add: main_ok [OF read_two_blank_costs] report_stdout report_files makedirs_fields
        m verification_NaN within_tolerance_def fresh_world_def)
qed

text \<open>The verification line of that run is the \<open>Verified\<close> message.\<close>

theorem C6_nan_mismatch_logs_no_warning_witness:
  "fst (main plain_lib (Inr two_blank_costs) fresh_world) = None \<and>
   files (snd (main plain_lib (Inr two_blank_costs) fresh_world)) summary_path \<noteq> None \<and>
   ''WARNING: computed mean does not equal REQUIRED_MEAN (229.56).''
     \<notin> set (stdout (snd (main plain_lib (Inr two_blank_costs) fresh_world)))"
  using C6_nan_mismatch_logs_no_warning by simp

subsection \<open>C7\<close>

text \<open>
  C7 as stated fails: a table with no data row gives a successful run whose summary
  shows the mean and the median as \<open>nan\<close>, which is not a value with two decimals.
\<close>

theorem C7_nan_is_not_two_decimals:
  "fst (main plain_lib (Inr header_only) fresh_world) = None \<and>
   files (snd (main plain_lib (Inr header_only) fresh_world)) summary_path =
     Some (TextFile (unlines
       [''CAC Analysis Summary'',
        ''--------------------'',
        ''Rows analyzed: 0'',
        ''Average CAC: nan'',
        ''Median CAC: nan'',
        ''Industry benchmark: 150.00'',
        '''',
        ''Key insight:'',
        ''- Current average CAC (nan) is higher than the industry benchmark (150.00).'',
        ''- Recommended solution: optimize digital marketing channels (reallocate spend to organic/referral, improve conversion funnel, A/B test landing pages, etc).'',
        '''',
        ''Contact for verification: 23f3001359@ds.study.iitm.ac.in''])) \<and>
   \<not> two_decimals ''nan''"
  by (simp add: main_ok [OF read_header_only] report_files
      summary_header_only [symmetric] two_decimals_def)

text \<open>
  C7, amended.  For every successful run the summary contains \<open>Average CAC:\<close>,
  \<open>Median CAC:\<close> and \<open>Industry benchmark:\<close>, each followed by its formatted
  value.  The benchmark is always shown as 150.00.  The mean and the median are shown
  with exactly two decimals whenever they are finite, and as \<open>nan\<close>, \<open>inf\<close> or
  \<open>-inf\<close> when they are not.
\<close>

theorem C7_summary_fields:
  assumes "read_data L csv = Inr (df, quarters, cacs)"
  shows "files (snd (main L csv w)) summary_path = Some (TextFile (summary_text df cacs)) \<and>
         sublist (''Average CAC: '' @ format_f 2 (mean_cac cacs) @ [CHR 0x0A])
           (summary_text df cacs) \<and>
         sublist (''Median CAC: '' @ format_f 2 (median_cac cacs) @ [CHR 0x0A])
           (summary_text df cacs) \<and>
         sublist (''Industry benchmark: 150.00'' @ [CHR 0x0A]) (summary_text df cacs) \<and>
         (is_finite (mean_cac cacs) \<longrightarrow> two_decimals (format_f 2 (mean_cac cacs))) \<and>
         (is_finite (median_cac cacs) \<longrightarrow> two_decimals (format_f 2 (median_cac cacs))) \<and>
         (\<not> is_finite (mean_cac cacs) \<longrightarrow>
            format_f 2 (mean_cac cacs) \<in> {''nan'', ''inf'', ''-inf''}) \<and>
         (\<not> is_finite (median_cac cacs) \<longrightarrow>
            format_f 2 (median_cac cacs) \<in> {''nan'', ''inf'', ''-inf''})"
proof -
  have a: "''Average CAC: '' @ format_f 2 (mean_cac cacs) \<in> set (summary_lines df cacs)"
    by (simp add: summary_lines_def)
  have b: "''Median CAC: '' @ format_f 2 (median_cac cacs) \<in> set (summary_lines df cacs)"
    by (simp add: summary_lines_def)
  have c: "''Industry benchmark: 150.00'' \<in> set (summary_lines df cacs)"
    by (simp add: summary_lines_def format_benchmark)
  show ?thesis
    using sublist_unlines [OF a] sublist_unlines [OF b] sublist_unlines [OF c]
      format_finite format_not_finite
    by (simp add: summary_written [OF assms] summary_text_def)
qed

text \<open>C7, amended, at the specification's example.\<close>

theorem C7_summary_fields_witness:
  "is_finite (mean_cac [Num 100, Num 150, Num 200, Num 250]) \<and>
   is_finite (median_cac [Num 100, Num 150, Num 200, Num 250]) \<and>
   sublist (''Average CAC: 175.00'' @ [CHR 0x0A])
     (summary_text spec_example [Num 100, Num 150, Num 200, Num 250]) \<and>
   sublist (''Median CAC: 175.00'' @ [CHR 0x0A])
     (summary_text spec_example [Num 100, Num 150, Num 200, Num 250]) \<and>
   sublist (''Industry benchmark: 150.00'' @ [CHR 0x0A])
     (summary_text spec_example [Num 100, Num 150, Num 200, Num 250]) \<and>
   two_decimals ''175.00''"
  using C7_summary_fields [OF read_spec_example, of fresh_world]
  by (simp add: metrics_spec_example format_eval)

subsection \<open>C8\<close>

text \<open>
  C8.  For every dataset that loads, the comparison chart that is saved has exactly two
  bars, the company average first and the benchmark second, and the benchmark bar is
  150 whatever the data.
\<close>

theorem C8_two_bars:
  assumes "read_data L csv = Inr (df, quarters, cacs)"
  shows "files (snd (main L csv w)) cmp_path = Some (Png 150 (comparison_figure cacs)) \<and>
         bars_of (comparison_figure cacs) =
           [(''Company Avg CAC'', mean_cac cacs), (''Industry Benchmark'', Num 150)]"
  using paths_distinct
  by (simp add: main_ok [OF assms] report_files bars_of_def comparison_figure_def
      bar_container_def annotate_def BENCHMARK_def Let_def)

text \<open>C8 at the specification's example.\<close>

theorem C8_two_bars_witness:
  "files (snd (main plain_lib (Inr spec_example) fresh_world)) cmp_path =
     Some (Png 150 (comparison_figure [Num 100, Num 150, Num 200, Num 250])) \<and>
   bars_of (comparison_figure [Num 100, Num 150, Num 200, Num 250]) =
     [(''Company Avg CAC'', Num 175), (''Industry Benchmark'', Num 150)]"
  using C8_two_bars [OF read_spec_example, of fresh_world]
  by (simp add: metrics_spec_example)

subsection \<open>C9\<close>

text \<open>
  C9.  Two runs on the same input, started in any two worlds (for one, the world the
  first run left behind), end the same way and print the same lines; when they succeed
  they write the same summary text and the same chart content.
\<close>

theorem C9_deterministic:
  "fst (main L csv w1) = fst (main L csv w2) \<and>
   drop (length (stdout w1)) (stdout (snd (main L csv w1))) =
     drop (length (stdout w2)) (stdout (snd (main L csv w2))) \<and>
   (fst (main L csv w1) = None \<longrightarrow>
      files (snd (main L csv w1)) summary_path = files (snd (main L csv w2)) summary_path \<and>
      files (snd (main L csv w1)) trend_path = files (snd (main L csv w2)) trend_path \<and>
      files (snd (main L csv w1)) cmp_path = files (snd (main L csv w2)) cmp_path)"
proof (cases "read_data L csv")
  case (Inl e)
  show ?thesis by (simp add: main_failed [OF Inl] makedirs_fields)
next
  case (Inr r)
  obtain df quarters cacs where r: "r = (df, quarters, cacs)" by (cases r) auto
  have ok: "read_data L csv = Inr (df, quarters, cacs)" using Inr r by simp
  show ?thesis
    using paths_distinct
    by (simp add: main_ok [OF ok] report_files report_stdout makedirs_fields)
qed

text \<open>C9 at the specification's example, run twice in a row.\<close>

theorem C9_deterministic_witness:
  "fst (main plain_lib (Inr spec_example) fresh_world) = None \<and>
   fst (main plain_lib (Inr spec_example) (snd (main plain_lib (Inr spec_example) fresh_world))) = None \<and>
   files (snd (main plain_lib (Inr spec_example) fresh_world)) summary_path =
     files (snd (main plain_lib (Inr spec_example)
        (snd (main plain_lib (Inr spec_example) fresh_world)))) summary_path \<and>
   files (snd (main plain_lib (Inr spec_example) fresh_world)) trend_path =
     files (snd (main plain_lib (Inr spec_example)
        (snd (main plain_lib (Inr spec_example) fresh_world)))) trend_path \<and>
   files (snd (main plain_lib (Inr spec_example) fresh_world)) cmp_path =
     files (snd (main plain_lib (Inr spec_example)
        (snd (main plain_lib (Inr spec_example) fresh_world)))) cmp_path"
proof -
  have ok: "fst (main plain_lib (Inr spec_example) fresh_world) = None"
    by (simp add: main_ok [OF read_spec_example])
  show ?thesis
    using C9_deterministic [of plain_lib "Inr spec_example" fresh_world
        "snd (main plain_lib (Inr spec_example) fresh_world)"] ok
    by simp
qed

subsection \<open>C10\<close>

text \<open>
  C10 at the table with no data row: the run succeeds, mean and median are NaN, the
  metrics are printed and the three files are written, but the verification line is the
  \<open>Verified\<close> message and not the warning.
\<close>

theorem C10_empty_table_prints_verified:
  "fst (main plain_lib (Inr header_only) fresh_world) = None \<and>
   mean_cac [] = NaN \<and> median_cac [] = NaN \<and>
   stdout (snd (main plain_lib (Inr header_only) fresh_world)) =
     [''Read 0 rows from quarterly_cac.csv'',
      ''Average CAC: nan'',
      ''Median CAC: nan'',
      ''For verification: 23f3001359@ds.study.iitm.ac.in'',
      ''Verified: computed mean equals required README value 229.56'',
      ''Saved CAC trend figure to: figures/cac_trend.png'',
      ''Saved benchmark comparison figure to: figures/cac_benchmark_comparison.png'',
      ''Wrote analysis_summary.txt'',
      ''Analysis complete.''] \<and>
   files (snd (main plain_lib (Inr header_only) fresh_world)) trend_path =
     Some (Png 150 (trend_figure [] [])) \<and>
   files (snd (main plain_lib (Inr header_only) fresh_world)) cmp_path =
     Some (Png 150 (comparison_figure [])) \<and>
   files (snd (main plain_lib (Inr header_only) fresh_world)) summary_path =
     Some (TextFile (summary_text header_only []))"
proof -
  have "len_df header_only = 0" by (simp add: len_df_def header_only_def)
  then show ?thesis
    using paths_distinct
    by (simp add: main_ok [OF read_header_only] report_stdout report_files makedirs_fields
        metrics_empty verification_NaN str_nat_small DATA_PATH_def EMAIL_def
        trend_path_def cmp_path_def path_join_def FIG_DIR_def fresh_world_def)
qed

text \<open>The fifth line printed for the empty table is the \<open>Verified\<close> message.\<close>

theorem C10_empty_table_prints_verified_witness:
  "''WARNING: computed mean does not equal REQUIRED_MEAN (229.56).''
     \<notin> set (stdout (snd (main plain_lib (Inr header_only) fresh_world))) \<and>
   stdout (snd (main plain_lib (Inr header_only) fresh_world)) ! 4 =
     ''Verified: computed mean equals required README value 229.56''"
  using C10_empty_table_prints_verified by simp

end
